theory Spec2Isabelle
  imports Complex_Main "HOL-Library.Sublist" "HOL-Library.Log_Nat"
begin

section \<open>Data model\<close>

text \<open>
  The screener works on \<^verbatim>\<open>Stock\<close> records (the interface in \<^verbatim>\<open>types\<close>) and on
  \<^verbatim>\<open>FilterCriteria\<close> (\<^verbatim>\<open>FilterPanel.tsx\<close>). Of the roughly ninety fields of a stock only
  those read by the filter are modelled. A TypeScript \<^verbatim>\<open>T | null\<close> is an \<open>option\<close>, with
  \<open>None\<close> for \<^verbatim>\<open>null\<close>. A JavaScript number is a \<open>real\<close>, namely the value of the
  double: the snapshot is parsed from JSON, so NaN and the infinities do not occur in a
  record, and a comparison of two doubles is the comparison of their values. The one
  arithmetic operation of the filter, the product of a market-cap bound with
  \<^verbatim>\<open>1_000_000_000\<close>, is the IEEE 754 binary64 product and is modelled with its rounding
  (\<open>times_double\<close> below).
\<close>

record Stock =
  symbol :: string
  sector :: "string option"
  industry :: "string option"
  market_cap_basic :: "real option"
  RSI :: "real option"
  change :: "real option"

record FilterCriteria =
  sector :: string
  industry :: string
  marketCapMin :: "real option"
  marketCapMax :: "real option"
  rsiMin :: "real option"
  rsiMax :: "real option"
  changeMin :: "real option"
  changeMax :: "real option"

definition defaultFilters :: FilterCriteria where
  "defaultFilters =
     \<lparr> FilterCriteria.sector = ''Any'', FilterCriteria.industry = ''Any'',
       marketCapMin = None, marketCapMax = None,
       rsiMin = None, rsiMax = None,
       changeMin = None, changeMax = None \<rparr>"

section \<open>Filter panel\<close>

text \<open>
  \<^verbatim>\<open>updateFilter<K extends keyof FilterCriteria>(key: K, value: FilterCriteria[K])\<close>: the
  key together with a value of the type that key has is one constructor per key.
\<close>

datatype filter_update =
    SetSector string
  | SetIndustry string
  | SetMarketCapMin "real option"
  | SetMarketCapMax "real option"
  | SetRsiMin "real option"
  | SetRsiMax "real option"
  | SetChangeMin "real option"
  | SetChangeMax "real option"

text \<open>\<^verbatim>\<open>const newFilters = { ...filters, [key]: value }\<close>\<close>

fun assign :: "filter_update \<Rightarrow> FilterCriteria \<Rightarrow> FilterCriteria" where
  "assign (SetSector v) filters = filters\<lparr>FilterCriteria.sector := v\<rparr>"
| "assign (SetIndustry v) filters = filters\<lparr>FilterCriteria.industry := v\<rparr>"
| "assign (SetMarketCapMin v) filters = filters\<lparr>marketCapMin := v\<rparr>"
| "assign (SetMarketCapMax v) filters = filters\<lparr>marketCapMax := v\<rparr>"
| "assign (SetRsiMin v) filters = filters\<lparr>rsiMin := v\<rparr>"
| "assign (SetRsiMax v) filters = filters\<lparr>rsiMax := v\<rparr>"
| "assign (SetChangeMin v) filters = filters\<lparr>changeMin := v\<rparr>"
| "assign (SetChangeMax v) filters = filters\<lparr>changeMax := v\<rparr>"

text \<open>
  \<^verbatim>\<open>updateFilter\<close> returns the criteria it hands to \<^verbatim>\<open>onFilterChange\<close>. The test
  \<^verbatim>\<open>key === "sector" && value !== filters.sector\<close> reads the sector of the criteria
  before the update.
\<close>

definition updateFilter :: "filter_update \<Rightarrow> FilterCriteria \<Rightarrow> FilterCriteria" where
  "updateFilter upd filters =
     (let newFilters = assign upd filters in
      case upd of
        SetSector v \<Rightarrow>
          (if v \<noteq> FilterCriteria.sector filters
           then newFilters\<lparr>FilterCriteria.industry := ''Any''\<rparr>
           else newFilters)
      | _ \<Rightarrow> newFilters)"

subsection \<open>The product of two doubles\<close>

text \<open>
  JavaScript's \<^verbatim>\<open>*\<close> on numbers is the binary64 product: the exact product rounded to
  the nearest double, ties to the double with an even significand. The doubles around a
  real \<open>x\<close> with \<open>2^e \<le> |x| < 2^(e+1)\<close> are the multiples of \<open>2^(e-52)\<close>, and of
  \<open>2^(-1074)\<close> below \<open>2^(-1022)\<close> (the subnormal range); \<open>quantum_exp\<close> is the exponent
  of that spacing, read off the bit length of \<open>\<lfloor>|x| * 2^1074\<rfloor>\<close>. A product beyond the
  largest finite double is \<^verbatim>\<open>Infinity\<close> in JavaScript; here it is a real that is larger
  than every finite double, so each comparison with the market cap of a record, which
  is a finite double, has the outcome it has in the code.
\<close>

definition pow2 :: "int \<Rightarrow> real" where
  "pow2 e = (if 0 \<le> e then 2 ^ nat e else 1 / 2 ^ nat (- e))"

definition round_half_even :: "real \<Rightarrow> int" where
  "round_half_even z =
     (let f = \<lfloor>z\<rfloor>; d = z - of_int f in
      if d < 1 / 2 then f
      else if 1 / 2 < d then f + 1
      else if even f then f else f + 1)"

definition quantum_exp :: "real \<Rightarrow> int" where
  "quantum_exp x = max (bitlen \<lfloor>\<bar>x\<bar> * pow2 1074\<rfloor> - 1075) (- 1022) - 52"

definition to_double :: "real \<Rightarrow> real" where
  "to_double x = of_int (round_half_even (x / pow2 (quantum_exp x))) * pow2 (quantum_exp x)"

definition times_double :: "real \<Rightarrow> real \<Rightarrow> real" where
  "times_double x y = to_double (x * y)"

subsection \<open>The filter\<close>

text \<open>
  The callback of \<^verbatim>\<open>data.filter\<close> in \<^verbatim>\<open>applyFilters\<close>: a chain of early
  \<^verbatim>\<open>return false\<close>, in the order of the source, and \<^verbatim>\<open>return true\<close> at the end.
  A \<^verbatim>\<open>null\<close> sector of the stock is different from every string.
\<close>

definition matches :: "FilterCriteria \<Rightarrow> Stock \<Rightarrow> bool" where
  "matches filters stock =
     (if FilterCriteria.sector filters \<noteq> ''Any''
         \<and> Stock.sector stock \<noteq> Some (FilterCriteria.sector filters) then False
      else if FilterCriteria.industry filters \<noteq> ''Any''
         \<and> Stock.industry stock \<noteq> Some (FilterCriteria.industry filters) then False
      else if (case (marketCapMin filters, market_cap_basic stock) of
                 (Some lo, Some marketCap) \<Rightarrow> marketCap < times_double lo 1000000000
               | _ \<Rightarrow> False) then False
      else if (case (marketCapMax filters, market_cap_basic stock) of
                 (Some hi, Some marketCap) \<Rightarrow> marketCap > times_double hi 1000000000
               | _ \<Rightarrow> False) then False
      else if (case (rsiMin filters, RSI stock) of
                 (Some lo, Some rsi) \<Rightarrow> rsi < lo
               | _ \<Rightarrow> False) then False
      else if (case (rsiMax filters, RSI stock) of
                 (Some hi, Some rsi) \<Rightarrow> rsi > hi
               | _ \<Rightarrow> False) then False
      else if (case (changeMin filters, change stock) of
                 (Some lo, Some chg) \<Rightarrow> chg < lo
               | _ \<Rightarrow> False) then False
      else if (case (changeMax filters, change stock) of
                 (Some hi, Some chg) \<Rightarrow> chg > hi
               | _ \<Rightarrow> False) then False
      else True)"

definition applyFilters :: "Stock list \<Rightarrow> FilterCriteria \<Rightarrow> Stock list" where
  "applyFilters data filters = filter (matches filters) data"

subsection \<open>The predicates of the specification\<close>

text \<open>
  The specification describes the filter as a conjunction of per-field predicates. These
  definitions follow its words, to be compared with \<open>matches\<close>: a categorical predicate
  is true for the sentinel and otherwise asks for equality; a range predicate is true for
  a \<^verbatim>\<open>null\<close> value and otherwise checks each bound that is present. The bounds of the
  market cap are given in billions: \<open>billions\<close> is the bound the code compares with, the
  double product of the criterion with \<^verbatim>\<open>1_000_000_000\<close>.
\<close>

definition categorical_ok :: "string \<Rightarrow> string option \<Rightarrow> bool" where
  "categorical_ok criterion v = (if criterion = ''Any'' then True else v = Some criterion)"

definition range_ok :: "real option \<Rightarrow> real option \<Rightarrow> real option \<Rightarrow> bool" where
  "range_ok lo hi v =
     (case v of
        None \<Rightarrow> True
      | Some x \<Rightarrow> (case lo of None \<Rightarrow> True | Some l \<Rightarrow> l \<le> x)
                \<and> (case hi of None \<Rightarrow> True | Some h \<Rightarrow> x \<le> h))"

definition billions :: "real option \<Rightarrow> real option" where
  "billions b = map_option (\<lambda>x. times_double x 1000000000) b"

definition spec_matches :: "FilterCriteria \<Rightarrow> Stock \<Rightarrow> bool" where
  "spec_matches filters stock =
     (categorical_ok (FilterCriteria.sector filters) (Stock.sector stock)
      \<and> categorical_ok (FilterCriteria.industry filters) (Stock.industry stock)
      \<and> range_ok (billions (marketCapMin filters)) (billions (marketCapMax filters))
                  (market_cap_basic stock)
      \<and> range_ok (rsiMin filters) (rsiMax filters) (RSI stock)
      \<and> range_ok (changeMin filters) (changeMax filters) (change stock))"

text \<open>
  One criteria set adds constraints to another: every field is either the same, or was
  at "no constraint" (\<^verbatim>\<open>"Any"\<close>, \<^verbatim>\<open>null\<close>) before.
\<close>

definition adds_categorical :: "string \<Rightarrow> string \<Rightarrow> bool" where
  "adds_categorical a b = (b = a \<or> a = ''Any'')"

definition adds_bound :: "real option \<Rightarrow> real option \<Rightarrow> bool" where
  "adds_bound a b = (b = a \<or> a = None)"

definition adds_constraints :: "FilterCriteria \<Rightarrow> FilterCriteria \<Rightarrow> bool" where
  "adds_constraints c1 c2 =
     (adds_categorical (FilterCriteria.sector c1) (FilterCriteria.sector c2)
      \<and> adds_categorical (FilterCriteria.industry c1) (FilterCriteria.industry c2)
      \<and> adds_bound (marketCapMin c1) (marketCapMin c2)
      \<and> adds_bound (marketCapMax c1) (marketCapMax c2)
      \<and> adds_bound (rsiMin c1) (rsiMin c2)
      \<and> adds_bound (rsiMax c1) (rsiMax c2)
      \<and> adds_bound (changeMin c1) (changeMin c2)
      \<and> adds_bound (changeMax c1) (changeMax c2))"

section \<open>Rating labels\<close>



section \<open>Column visibility\<close>

text \<open>
  A column definition of \<^verbatim>\<open>columns\<close> (\<^verbatim>\<open>lib/columns\<close>), reduced to the properties that
  decide its identity and whether it can be hidden; an absent property is \<open>None\<close>.
\<close>

record ColumnDef =
  id_field :: "string option"
  accessorKey :: "string option"
  enableHiding :: "bool option"

definition tickerColumn :: ColumnDef where
  "tickerColumn = \<lparr> id_field = Some ''ticker'', accessorKey = None, enableHiding = Some False \<rparr>"

definition keyColumn :: "string \<Rightarrow> ColumnDef" where
  "keyColumn k = \<lparr> id_field = None, accessorKey = Some k, enableHiding = None \<rparr>"

definition columns :: "ColumnDef list" where
  "columns =
     [ tickerColumn, keyColumn ''name'', keyColumn ''description'',
       keyColumn ''close'', keyColumn ''open'', keyColumn ''high'', keyColumn ''low'',
       keyColumn ''change'', keyColumn ''change_abs'',
       keyColumn ''volume'', keyColumn ''average_volume_10d_calc'',
       keyColumn ''average_volume_30d_calc'', keyColumn ''relative_volume_10d_calc'',
       keyColumn ''VWAP'',
       keyColumn ''market_cap_basic'', keyColumn ''price_earnings_ttm'',
       keyColumn ''price_sales_ratio'', keyColumn ''price_book_ratio'',
       keyColumn ''dividend_yield_recent'', keyColumn ''earnings_per_share_basic_ttm'',
       keyColumn ''enterprise_value_fq'', keyColumn ''beta_1_year'',
       keyColumn ''total_revenue_ttm'', keyColumn ''gross_profit_fq'',
       keyColumn ''net_income_fq'', keyColumn ''total_debt_fq'',
       keyColumn ''Perf_W'', keyColumn ''Perf_1M'', keyColumn ''Perf_3M'',
       keyColumn ''Perf_6M'', keyColumn ''Perf_Y'', keyColumn ''Perf_YTD'',
       keyColumn ''Perf_5Y'', keyColumn ''Perf_All'',
       keyColumn ''price_52_week_high'', keyColumn ''price_52_week_low'',
       keyColumn ''High_All'', keyColumn ''Low_All'',
       keyColumn ''RSI'', keyColumn ''RSI7'', keyColumn ''Stoch_K'', keyColumn ''Stoch_D'',
       keyColumn ''CCI20'', keyColumn ''MACD_macd'', keyColumn ''ADX'', keyColumn ''ATR'',
       keyColumn ''Volatility_D'',
       keyColumn ''SMA20'', keyColumn ''SMA50'', keyColumn ''SMA200'',
       keyColumn ''EMA20'', keyColumn ''EMA50'', keyColumn ''EMA200'',
       keyColumn ''BB_upper'', keyColumn ''BB_lower'',
       keyColumn ''Recommend_All'', keyColumn ''Recommend_MA'', keyColumn ''Recommend_Other'',
       keyColumn ''sector'', keyColumn ''industry'', keyColumn ''exchange'' ]"

definition defaultVisibleColumns :: "string list" where
  "defaultVisibleColumns =
     [ ''ticker'', ''name'', ''close'', ''change'', ''volume'', ''market_cap_basic'',
       ''price_earnings_ttm'', ''dividend_yield_recent'', ''RSI'', ''Recommend_All'',
       ''sector'' ]"

type_synonym VisibilityState = "string \<rightharpoonup> bool"

text \<open>
  The initial state of \<^verbatim>\<open>columnVisibility\<close> in \<^verbatim>\<open>DataTable\<close>:
  \<^verbatim>\<open>colId = col.id || col.accessorKey\<close> takes the first of the two that is present and
  not empty, and \<^verbatim>\<open>if (colId)\<close> skips a column that has neither.
\<close>

definition colId :: "ColumnDef \<Rightarrow> string option" where
  "colId col =
     (case id_field col of
        Some i \<Rightarrow> if i \<noteq> [] then Some i else accessorKey col
      | None \<Rightarrow> accessorKey col)"

definition initialVisibility :: "ColumnDef list \<Rightarrow> VisibilityState" where
  "initialVisibility cols =
     fold (\<lambda>col visibility.
             case colId col of
               Some c \<Rightarrow>
                 if c \<noteq> [] then visibility(c \<mapsto> List.member defaultVisibleColumns c)
                 else visibility
             | None \<Rightarrow> visibility)
          cols Map.empty"

text \<open>
  What \<^verbatim>\<open>ColumnToggle\<close> uses of the table library. The table gives a column the
  \<^verbatim>\<open>id\<close> of its definition, or else its \<^verbatim>\<open>accessorKey\<close>; \<^verbatim>\<open>getCanHide\<close> reads
  \<^verbatim>\<open>enableHiding\<close>, which is true when absent; \<^verbatim>\<open>getIsVisible\<close> reads the entry of the
  column in the visibility state, true when absent; \<^verbatim>\<open>toggleVisibility(value)\<close> stores
  \<^verbatim>\<open>value\<close> in that entry. The library applies \<^verbatim>\<open>toggleVisibility\<close> only to a column that
  can be hidden; every call below is on such a column, so the update is written
  without that test.
\<close>

definition column_id :: "ColumnDef \<Rightarrow> string" where
  "column_id col =
     (case id_field col of
        Some i \<Rightarrow> i
      | None \<Rightarrow> (case accessorKey col of Some k \<Rightarrow> k | None \<Rightarrow> []))"

definition getCanHide :: "ColumnDef \<Rightarrow> bool" where
  "getCanHide col = (case enableHiding col of None \<Rightarrow> True | Some b \<Rightarrow> b)"

definition getIsVisible :: "ColumnDef \<Rightarrow> VisibilityState \<Rightarrow> bool" where
  "getIsVisible col visibility =
     (case visibility (column_id col) of None \<Rightarrow> True | Some b \<Rightarrow> b)"

definition toggleVisibility :: "ColumnDef \<Rightarrow> bool \<Rightarrow> VisibilityState \<Rightarrow> VisibilityState" where
  "toggleVisibility col v visibility = visibility(column_id col \<mapsto> v)"

text \<open>
  \<^verbatim>\<open>ColumnToggle\<close>: the columns it offers, the lookup by id among them, the handler of one
  checkbox (no checkbox is rendered for an id that the lookup does not find), and the
  handlers of the buttons "All" and "None".
\<close>

definition allColumns :: "ColumnDef list \<Rightarrow> ColumnDef list" where
  "allColumns cols = filter getCanHide cols"

definition getColumn :: "ColumnDef list \<Rightarrow> string \<Rightarrow> ColumnDef option" where
  "getColumn cols columnId = find (\<lambda>col. column_id col = columnId) (allColumns cols)"

definition onCheckedChange ::
    "ColumnDef list \<Rightarrow> string \<Rightarrow> bool \<Rightarrow> VisibilityState \<Rightarrow> VisibilityState" where
  "onCheckedChange cols columnId checked visibility =
     (case getColumn cols columnId of
        None \<Rightarrow> visibility
      | Some column \<Rightarrow> toggleVisibility column checked visibility)"

definition setAll :: "bool \<Rightarrow> ColumnDef list \<Rightarrow> VisibilityState \<Rightarrow> VisibilityState" where
  "setAll v cols visibility =
     fold (\<lambda>col vis. if column_id col \<noteq> ''ticker'' then toggleVisibility col v vis else vis)
          (allColumns cols) visibility"

definition showAll :: "ColumnDef list \<Rightarrow> VisibilityState \<Rightarrow> VisibilityState" where
  "showAll cols visibility = setAll True cols visibility"

definition hideAll :: "ColumnDef list \<Rightarrow> VisibilityState \<Rightarrow> VisibilityState" where
  "hideAll cols visibility = setAll False cols visibility"

text \<open>
  The visibility state changes only through these three handlers. A reachable state is
  the initial one after a list of user actions.
\<close>

datatype visibility_action = Toggle string bool | ShowAll | HideAll

fun visibility_step :: "visibility_action \<Rightarrow> VisibilityState \<Rightarrow> VisibilityState" where
  "visibility_step (Toggle columnId checked) vis = onCheckedChange columns columnId checked vis"
| "visibility_step ShowAll vis = showAll columns vis"
| "visibility_step HideAll vis = hideAll columns vis"

definition visibility_after :: "visibility_action list \<Rightarrow> VisibilityState" where
  "visibility_after actions = fold visibility_step actions (initialVisibility columns)"

section \<open>Example records\<close>

text \<open>The three records of the end-to-end scenario of the specification.\<close>

definition stockA :: Stock where
  "stockA = \<lparr> symbol = ''AAA'', Stock.sector = Some ''Tech'', Stock.industry = None,
      market_cap_basic = None, RSI = Some 75, change = Some 3 \<rparr>"

definition stockB :: Stock where
  "stockB = \<lparr> symbol = ''BBB'', Stock.sector = Some ''Tech'', Stock.industry = None,
      market_cap_basic = Some 5000000000, RSI = Some 20, change = Some (- 1) \<rparr>"

definition stockC :: Stock where
  "stockC = \<lparr> symbol = ''CCC'', Stock.sector = Some ''Energy'', Stock.industry = None,
      market_cap_basic = Some 2000000000, RSI = None, change = Some 0.5 \<rparr>"

definition stockN :: Stock where
  "stockN = \<lparr> symbol = ''NNN'', Stock.sector = Some ''Tech'', Stock.industry = None,
      market_cap_basic = None, RSI = None, change = None \<rparr>"

text \<open>Criteria in which every range has a minimum above its maximum.\<close>

definition invertedFilters :: FilterCriteria where
  "invertedFilters =
     defaultFilters\<lparr> marketCapMin := Some 70, marketCapMax := Some 30,
       rsiMin := Some 70, rsiMax := Some 30, changeMin := Some 70, changeMax := Some 30 \<rparr>"

definition scenario :: "Stock list" where
  "scenario = [stockA, stockB, stockC, stockN]"

text \<open>
  Two neighbouring doubles, written as the fractions they are: the values of the
  literals \<^verbatim>\<open>0.47000000000000003\<close> and \<^verbatim>\<open>0.47\<close>. As market-cap bounds they are a
  minimum above a maximum, and a record with a market cap of 470 million.
\<close>

definition closeMin :: real where
  "closeMin = 8466767299456533 / 18014398509481984"

definition closeMax :: real where
  "closeMax = 2116691824864133 / 4503599627370496"

definition closeFilters :: FilterCriteria where
  "closeFilters = defaultFilters\<lparr> marketCapMin := Some closeMin, marketCapMax := Some closeMax \<rparr>"

definition stockP :: Stock where
  "stockP = \<lparr> symbol = ''PPP'', Stock.sector = Some ''Tech'', Stock.industry = None,
      market_cap_basic = Some 470000000, RSI = None, change = None \<rparr>"

text \<open>
  The double of the literal \<^verbatim>\<open>4.1\<close>, and a record whose market cap is the double
  \<^verbatim>\<open>4099999999.9999995\<close>, the next one below 4.1 billion.
\<close>

definition fourPointOne :: real where
  "fourPointOne = 2308094809027379 / 562949953421312"

definition stockV :: Stock where
  "stockV = \<lparr> symbol = ''VVV'', Stock.sector = Some ''Tech'', Stock.industry = None,
      market_cap_basic = Some (8598323199999999 / 2097152), RSI = None, change = None \<rparr>"

section \<open>The product of two doubles: rounding\<close>

subsection \<open>Powers of two and the exponent of the spacing\<close>

lemma pow2_powi: "pow2 e = 2 powi e"
  by (simp add: pow2_def power_int_def inverse_eq_divide power_one_over)

lemma pow2_pos: "0 < pow2 e"
  by (simp add: pow2_powi)

lemma pow2_add: "pow2 (a + b) = pow2 a * pow2 b"
  by (simp add: pow2_powi power_int_add)

lemma pow2_nat: "pow2 (int n) = 2 ^ n"
  by (simp add: pow2_def)

lemma bitlen_eqI:
  assumes "2 ^ n \<le> k" and "k < 2 ^ Suc n"
  shows "bitlen k = int n + 1"
proof -
  have "bitlen k \<le> int n + 1"
    using assms(2) by (simp add: bitlen_le_iff_power nat_add_distrib)
  moreover have "int n + 1 \<le> bitlen k"
    using assms(1) by (simp add: bitlen_ge_iff_power nat_add_distrib)
  ultimately show ?thesis by simp
qed

lemma pow2_of_int: "0 \<le> e \<Longrightarrow> pow2 e = of_int (2 ^ nat e)"
  by (simp add: pow2_def)

lemma quantum_exp_normal:
  assumes lo: "pow2 e \<le> \<bar>x\<bar>" and hi: "\<bar>x\<bar> < pow2 (e + 1)" and e: "- 1022 \<le> e"
  shows "quantum_exp x = e - 52"
proof -
  define n where "n = nat (e + 1074)"
  have en: "e + 1074 = int n" and en': "e + 1 + 1074 = int (Suc n)"
    using e by (simp_all add: n_def)
  have "pow2 e * pow2 1074 \<le> \<bar>x\<bar> * pow2 1074"
    using lo by (simp add: pow2_pos)
  then have "of_int (2 ^ n) \<le> \<bar>x\<bar> * pow2 1074"
    by (simp only: pow2_add [symmetric] en pow2_nat of_int_power of_int_numeral)
  then have l: "2 ^ n \<le> \<lfloor>\<bar>x\<bar> * pow2 1074\<rfloor>"
    by (simp only: le_floor_iff)
  have "\<bar>x\<bar> * pow2 1074 < pow2 (e + 1) * pow2 1074"
    using hi by (simp add: pow2_pos)
  then have "\<bar>x\<bar> * pow2 1074 < of_int (2 ^ Suc n)"
    by (simp only: pow2_add [symmetric] en' pow2_nat of_int_power of_int_numeral)
  then have h: "\<lfloor>\<bar>x\<bar> * pow2 1074\<rfloor> < 2 ^ Suc n"
    by (simp only: floor_less_iff)
  from l h have "bitlen \<lfloor>\<bar>x\<bar> * pow2 1074\<rfloor> = int n + 1"
    by (rule bitlen_eqI)
  then show ?thesis
    using e en by (simp add: quantum_exp_def)
qed

lemma to_double_eval:
  assumes "pow2 e \<le> \<bar>x\<bar>" and "\<bar>x\<bar> < pow2 (e + 1)" and "- 1022 \<le> e"
    and "round_half_even (x / pow2 (e - 52)) = n"
  shows "to_double x = of_int n * pow2 (e - 52)"
  using assms by (simp add: to_double_def quantum_exp_normal)

subsection \<open>Rounding is odd and monotone\<close>

lemma round_half_even_bounds:
  "\<lfloor>z\<rfloor> \<le> round_half_even z \<and> round_half_even z \<le> \<lfloor>z\<rfloor> + 1"
  by (simp add: round_half_even_def Let_def)

lemma round_half_even_of_int: "round_half_even (of_int k) = k"
  by (simp add: round_half_even_def)

lemma round_half_even_mono:
  assumes "a \<le> b"
  shows "round_half_even a \<le> round_half_even b"
proof (cases "\<lfloor>a\<rfloor> = \<lfloor>b\<rfloor>")
  case True
  with assms show ?thesis
    by (auto simp: round_half_even_def Let_def)
next
  case False
  moreover have "\<lfloor>a\<rfloor> \<le> \<lfloor>b\<rfloor>" using assms by (rule floor_mono)
  ultimately have "\<lfloor>a\<rfloor> + 1 \<le> \<lfloor>b\<rfloor>" by simp
  with round_half_even_bounds [of a] round_half_even_bounds [of b]
  show ?thesis by linarith
qed

lemma round_half_even_minus: "round_half_even (- z) = - round_half_even z"
proof (cases "z = of_int \<lfloor>z\<rfloor>")
  case True
  then obtain k where "z = of_int k" ..
  then show ?thesis
    by (simp add: round_half_even_of_int flip: of_int_minus)
next
  case False
  then have f: "\<lfloor>- z\<rfloor> = - \<lfloor>z\<rfloor> - 1"
    by (metis ceiling_altdef ceiling_def add_diff_cancel_right' minus_diff_eq uminus_add_conv_diff)
  show ?thesis
    unfolding round_half_even_def Let_def f
    by (auto simp: algebra_simps)
qed

lemma bitlen_mono: "a \<le> b \<Longrightarrow> bitlen a \<le> bitlen b"
  by (simp add: bitlen_def floorlog_mono nat_mono)

lemma quantum_exp_mono: "\<bar>x\<bar> \<le> \<bar>y\<bar> \<Longrightarrow> quantum_exp x \<le> quantum_exp y"
  unfolding quantum_exp_def
  by (intro diff_right_mono max.mono bitlen_mono floor_mono mult_right_mono)
     (simp_all add: pow2_pos less_imp_le)

lemma quantum_exp_minus: "quantum_exp (- x) = quantum_exp x"
  by (simp add: quantum_exp_def)

lemma to_double_minus: "to_double (- x) = - to_double x"
  by (simp add: to_double_def quantum_exp_minus round_half_even_minus)


lemma pow2_mono: "a \<le> b \<Longrightarrow> pow2 a \<le> pow2 b"
  by (simp add: pow2_powi power_int_increasing)

lemma quantum_exp_upper: "\<bar>x\<bar> < pow2 (quantum_exp x + 53)"
proof -
  define b where "b = bitlen \<lfloor>\<bar>x\<bar> * pow2 1074\<rfloor>"
  have b0: "0 \<le> b" by (simp add: b_def bitlen_nonneg)
  have "\<lfloor>\<bar>x\<bar> * pow2 1074\<rfloor> < 2 ^ nat b"
    using bitlen_le_iff_power [of "\<lfloor>\<bar>x\<bar> * pow2 1074\<rfloor>" b] by (simp add: b_def)
  then have "\<bar>x\<bar> * pow2 1074 < of_int (2 ^ nat b)"
    by (simp only: floor_less_iff)
  also have "of_int (2 ^ nat b) = pow2 b"
    using b0 by (simp only: pow2_of_int)
  also have "pow2 b = pow2 (b - 1074) * pow2 1074"
    by (simp add: pow2_add [symmetric])
  finally have "\<bar>x\<bar> < pow2 (b - 1074)"
    by (simp add: pow2_pos)
  also have "pow2 (b - 1074) \<le> pow2 (quantum_exp x + 53)"
    by (rule pow2_mono) (simp add: quantum_exp_def b_def)
  finally show ?thesis .
qed

lemma quantum_exp_lower:
  assumes "- 1074 < quantum_exp y"
  shows "pow2 (quantum_exp y + 52) \<le> \<bar>y\<bar>"
proof -
  define n where "n = \<lfloor>\<bar>y\<bar> * pow2 1074\<rfloor>"
  define b where "b = bitlen n"
  from assms have q: "quantum_exp y = b - 1127" and b: "53 < b"
    by (auto simp: quantum_exp_def b_def n_def max_def split: if_splits)
  from b have "0 < n"
    using bitlen_eq_zero_iff [of n] by (cases "0 < n") (simp_all add: b_def)
  then have "2 ^ nat (b - 1) \<le> n"
    using bitlen_bounds [of n] by (simp add: b_def)
  then have "of_int (2 ^ nat (b - 1)) \<le> \<bar>y\<bar> * pow2 1074"
    unfolding n_def by (simp only: le_floor_iff)
  moreover have "of_int (2 ^ nat (b - 1)) = pow2 (b - 1)"
    using b by (simp only: pow2_of_int)
  moreover have "pow2 (b - 1) = pow2 (b - 1 - 1074) * pow2 1074"
    by (simp add: pow2_add [symmetric])
  ultimately have "pow2 (b - 1 - 1074) \<le> \<bar>y\<bar>"
    by (simp add: pow2_pos)
  then show ?thesis by (simp add: q)
qed

lemma to_double_nonneg: "0 \<le> x \<Longrightarrow> 0 \<le> to_double x"
proof -
  assume "0 \<le> x"
  then have "0 \<le> x / pow2 (quantum_exp x)"
    by (simp add: pow2_pos less_imp_le)
  then have "round_half_even 0 \<le> round_half_even (x / pow2 (quantum_exp x))"
    by (rule round_half_even_mono)
  then have "0 \<le> round_half_even (x / pow2 (quantum_exp x))"
    using round_half_even_of_int [of 0] by simp
  then show ?thesis
    by (simp add: to_double_def pow2_pos less_imp_le)
qed

lemma to_double_mono_nonneg:
  assumes "0 \<le> x" and "x \<le> y"
  shows "to_double x \<le> to_double y"
proof -
  have le: "quantum_exp x \<le> quantum_exp y"
    using assms by (intro quantum_exp_mono) simp
  show ?thesis
  proof (cases "quantum_exp x = quantum_exp y")
    case True
    have "x / pow2 (quantum_exp y) \<le> y / pow2 (quantum_exp y)"
      using assms(2) by (simp add: divide_right_mono pow2_pos less_imp_le)
    then have "round_half_even (x / pow2 (quantum_exp y))
        \<le> round_half_even (y / pow2 (quantum_exp y))"
      by (rule round_half_even_mono)
    then show ?thesis
      by (simp add: to_double_def True pow2_pos)
  next
    case False
    with le have lt: "quantum_exp x < quantum_exp y" by simp
    define qx where "qx = quantum_exp x"
    define qy where "qy = quantum_exp y"
    define k where "k = nat (qy + 52 - qx)"
    have "- 1074 \<le> quantum_exp x" by (simp add: quantum_exp_def)
    with lt have "- 1074 < quantum_exp y" by simp
    then have ylow: "pow2 (qy + 52) \<le> y"
      using quantum_exp_lower [of y] assms by (simp add: qy_def)
    have "x < pow2 (qx + 53)"
      using quantum_exp_upper [of x] assms by (simp add: qx_def)
    also have "pow2 (qx + 53) \<le> pow2 (qy + 52)"
      using lt by (intro pow2_mono) (simp add: qx_def qy_def)
    finally have xup: "x < pow2 (qy + 52)" .
    define c :: int where "c = 2 ^ k"
    define d :: int where "d = 2 ^ 52"
    have kx: "pow2 (qy + 52) = of_int c * pow2 qx"
    proof -
      have "pow2 (qy + 52) = pow2 (int k + qx)"
        using lt by (simp add: k_def qx_def qy_def)
      then show ?thesis by (simp add: pow2_add pow2_nat c_def)
    qed
    have ky: "pow2 (qy + 52) = of_int d * pow2 qy"
    proof -
      have "pow2 (qy + 52) = pow2 (int 52 + qy)" by (simp add: add.commute)
      then show ?thesis by (simp only: pow2_add pow2_nat d_def of_int_power of_int_numeral)
    qed
    have "x / pow2 qx \<le> of_int c"
      using xup by (simp add: kx pow2_pos pos_divide_le_eq less_imp_le)
    then have "round_half_even (x / pow2 qx) \<le> round_half_even (of_int c)"
      by (rule round_half_even_mono)
    then have "of_int (round_half_even (x / pow2 qx)) * pow2 qx \<le> of_int c * pow2 qx"
      by (simp add: round_half_even_of_int pow2_pos)
    then have a: "to_double x \<le> pow2 (qy + 52)"
      by (simp add: to_double_def qx_def [symmetric] kx)
    have "of_int d \<le> y / pow2 qy"
      using ylow by (simp add: ky pow2_pos pos_le_divide_eq)
    then have "round_half_even (of_int d) \<le> round_half_even (y / pow2 qy)"
      by (rule round_half_even_mono)
    then have "of_int d * pow2 qy \<le> of_int (round_half_even (y / pow2 qy)) * pow2 qy"
      by (simp add: round_half_even_of_int pow2_pos)
    then have b: "pow2 (qy + 52) \<le> to_double y"
      by (simp add: to_double_def qy_def [symmetric] ky)
    from a b show ?thesis by simp
  qed
qed

lemma to_double_mono:
  assumes "x \<le> y"
  shows "to_double x \<le> to_double y"
proof (cases "0 \<le> x")
  case True
  then show ?thesis using assms by (rule to_double_mono_nonneg)
next
  case x: False
  show ?thesis
  proof (cases "0 \<le> y")
    case True
    from x have "0 \<le> to_double (- x)" by (intro to_double_nonneg) simp
    then have "to_double x \<le> 0" by (simp add: to_double_minus)
    also have "0 \<le> to_double y" using True by (rule to_double_nonneg)
    finally show ?thesis .
  next
    case False
    then have "to_double (- y) \<le> to_double (- x)"
      using assms by (intro to_double_mono_nonneg) simp_all
    then show ?thesis by (simp add: to_double_minus)
  qed
qed

text \<open>The rounded value is within half a spacing of the exact one.\<close>

lemma round_half_even_error: "\<bar>of_int (round_half_even z) - z\<bar> \<le> 1 / 2"
proof -
  have "of_int \<lfloor>z\<rfloor> \<le> z" and "z < of_int \<lfloor>z\<rfloor> + 1"
    by linarith+
  then show ?thesis
    by (auto simp: round_half_even_def Let_def abs_le_iff)
qed

lemma to_double_error: "\<bar>to_double x - x\<bar> \<le> pow2 (quantum_exp x) / 2"
proof -
  define q where "q = pow2 (quantum_exp x)"
  have q: "0 < q" by (simp add: q_def pow2_pos)
  have "\<bar>of_int (round_half_even (x / q)) - x / q\<bar> * q \<le> 1 / 2 * q"
    using round_half_even_error [of "x / q"] q by (intro mult_right_mono) simp_all
  moreover have "\<bar>of_int (round_half_even (x / q)) - x / q\<bar> * q
      = \<bar>of_int (round_half_even (x / q)) * q - x\<bar>"
  proof -
    have "\<bar>of_int (round_half_even (x / q)) - x / q\<bar> * q
        = \<bar>(of_int (round_half_even (x / q)) - x / q) * q\<bar>"
      using q by (simp add: abs_mult)
    also have "(of_int (round_half_even (x / q)) - x / q) * q
        = of_int (round_half_even (x / q)) * q - x"
      using q by (simp add: left_diff_distrib)
    finally show ?thesis .
  qed
  ultimately show ?thesis
    by (simp add: to_double_def q_def)
qed

lemma times_double_mono: "x \<le> y \<Longrightarrow> times_double x 1000000000 \<le> times_double y 1000000000"
  by (simp add: times_double_def to_double_mono)

subsection \<open>The products of the examples\<close>

lemma literal_closeMax: "to_double (47 / 100) = closeMax"
proof -
  have "to_double (47 / 100) = of_int 8466767299456532 * pow2 (- 2 - 52)"
    by (rule to_double_eval) (simp_all add: pow2_def round_half_even_def)
  then show ?thesis by (simp add: closeMax_def pow2_def)
qed

lemma literal_closeMin: "to_double (47000000000000003 / 100000000000000000) = closeMin"
proof -
  have "to_double (47000000000000003 / 100000000000000000)
      = of_int 8466767299456533 * pow2 (- 2 - 52)"
    by (rule to_double_eval) (simp_all add: pow2_def round_half_even_def)
  then show ?thesis by (simp add: closeMin_def pow2_def)
qed

lemma literal_fourPointOne: "to_double (41 / 10) = fourPointOne"
proof -
  have "to_double (41 / 10) = of_int 4616189618054758 * pow2 (2 - 52)"
    by (rule to_double_eval) (simp_all add: pow2_def round_half_even_def)
  then show ?thesis by (simp add: fourPointOne_def pow2_def)
qed

lemma times_closeMin: "times_double closeMin 1000000000 = 470000000"
proof -
  have "to_double (closeMin * 1000000000) = of_int 7885291520000000 * pow2 (28 - 52)"
    by (rule to_double_eval) (simp_all add: closeMin_def pow2_def round_half_even_def)
  then show ?thesis by (simp add: times_double_def pow2_def)
qed

lemma times_closeMax: "times_double closeMax 1000000000 = 470000000"
proof -
  have "to_double (closeMax * 1000000000) = of_int 7885291520000000 * pow2 (28 - 52)"
    by (rule to_double_eval) (simp_all add: closeMax_def pow2_def round_half_even_def)
  then show ?thesis by (simp add: times_double_def pow2_def)
qed

lemma times_fourPointOne: "times_double fourPointOne 1000000000 = 8598323199999999 / 2097152"
proof -
  have "to_double (fourPointOne * 1000000000) = of_int 8598323199999999 * pow2 (31 - 52)"
    by (rule to_double_eval) (simp_all add: fourPointOne_def pow2_def round_half_even_def)
  then show ?thesis by (simp add: times_double_def pow2_def)
qed


lemma times_30: "times_double 30 1000000000 = 30000000000"
proof -
  have "to_double 30000000000 = of_int 7864320000000000 * pow2 (34 - 52)"
    by (rule to_double_eval) (simp_all add: pow2_def round_half_even_def)
  then show ?thesis by (simp add: times_double_def pow2_def)
qed

lemma times_70: "times_double 70 1000000000 = 70000000000"
proof -
  have "to_double 70000000000 = of_int 4587520000000000 * pow2 (36 - 52)"
    by (rule to_double_eval) (simp_all add: pow2_def round_half_even_def)
  then show ?thesis by (simp add: times_double_def pow2_def)
qed

section \<open>Filtering\<close>

subsection \<open>The filter callback is the conjunction of the specification\<close>

lemma range_ok_conds:
  "range_ok lo hi v =
     (\<not> (case (lo, v) of (Some l, Some x) \<Rightarrow> x < l | _ \<Rightarrow> False)
      \<and> \<not> (case (hi, v) of (Some h, Some x) \<Rightarrow> x > h | _ \<Rightarrow> False))"
  by (cases lo; cases hi; cases v; simp add: range_ok_def not_less)

lemma range_ok_billions:
  "range_ok (billions lo) (billions hi) v =
     (\<not> (case (lo, v) of (Some l, Some x) \<Rightarrow> x < times_double l 1000000000 | _ \<Rightarrow> False)
      \<and> \<not> (case (hi, v) of (Some h, Some x) \<Rightarrow> x > times_double h 1000000000
               | _ \<Rightarrow> False))"
  by (cases lo; cases hi; cases v; simp add: range_ok_def billions_def not_less)

lemma matches_spec: "matches filters stock = spec_matches filters stock"
  unfolding matches_def spec_matches_def range_ok_billions categorical_ok_def
  unfolding range_ok_conds
  by simp

subsection \<open>Facts about the per-field predicates\<close>

lemma categorical_ok_mono:
  "adds_categorical a b \<Longrightarrow> categorical_ok b v \<Longrightarrow> categorical_ok a v"
  by (auto simp: adds_categorical_def categorical_ok_def)

lemma range_ok_mono:
  "adds_bound lo1 lo2 \<Longrightarrow> adds_bound hi1 hi2 \<Longrightarrow> range_ok lo2 hi2 v \<Longrightarrow> range_ok lo1 hi1 v"
  by (cases v; cases lo1; cases hi1; auto simp: adds_bound_def range_ok_def)

lemma adds_bound_billions: "adds_bound a b \<Longrightarrow> adds_bound (billions a) (billions b)"
  by (auto simp: adds_bound_def billions_def)

lemma spec_matches_mono:
  assumes "adds_constraints c1 c2" and "spec_matches c2 stock"
  shows "spec_matches c1 stock"
  using assms unfolding adds_constraints_def spec_matches_def
  by (blast intro: categorical_ok_mono range_ok_mono adds_bound_billions)

lemma length_filter_mono:
  "(\<And>x. P x \<Longrightarrow> Q x) \<Longrightarrow> length (filter P xs) \<le> length (filter Q xs)"
  by (induction xs) auto

lemma range_ok_unbounded: "range_ok None None v"
  by (cases v) (simp_all add: range_ok_def)

lemma range_ok_None: "range_ok lo hi None"
  by (simp add: range_ok_def)

lemma range_ok_inverted: "hi < lo \<Longrightarrow> range_ok (Some lo) (Some hi) v = (v = None)"
  by (cases v) (auto simp: range_ok_def)



lemma billions_Some: "billions (Some x) = Some (times_double x 1000000000)"
  by (simp add: billions_def)

lemma billions_None: "billions None = None"
  by (simp add: billions_def)

subsection \<open>Properties of the filter\<close>

text \<open>
  C1 (null pass-through). When the market cap, the RSI or the change of a record is
  \<^verbatim>\<open>null\<close>, the bounds on that attribute have no influence on the filter: with any
  bounds the record matches exactly when it matches with no bound on that attribute, so
  it is never excluded by that range filter.
\<close>

theorem null_pass_through:
  "(market_cap_basic stock = None \<longrightarrow>
      matches (filters\<lparr>marketCapMin := lo, marketCapMax := hi\<rparr>) stock
        = matches (filters\<lparr>marketCapMin := None, marketCapMax := None\<rparr>) stock)
   \<and> (RSI stock = None \<longrightarrow>
      matches (filters\<lparr>rsiMin := lo, rsiMax := hi\<rparr>) stock
        = matches (filters\<lparr>rsiMin := None, rsiMax := None\<rparr>) stock)
   \<and> (change stock = None \<longrightarrow>
      matches (filters\<lparr>changeMin := lo, changeMax := hi\<rparr>) stock
        = matches (filters\<lparr>changeMin := None, changeMax := None\<rparr>) stock)"
  by (simp add: matches_spec spec_matches_def range_ok_None)

theorem null_pass_through_witness:
  "market_cap_basic stockN = None \<and> RSI stockN = None \<and> change stockN = None
   \<and> matches (defaultFilters\<lparr>marketCapMin := Some 9, marketCapMax := Some 1\<rparr>) stockN
   \<and> matches (defaultFilters\<lparr>rsiMin := Some 9, rsiMax := Some 1\<rparr>) stockN
   \<and> matches (defaultFilters\<lparr>changeMin := Some 9, changeMax := Some 1\<rparr>) stockN"
  using null_pass_through [where stock = stockN and filters = defaultFilters
                             and lo = "Some 9" and hi = "Some 1"]
  by (simp add: stockN_def defaultFilters_def matches_def)

text \<open>
  C3 (cascade reset). Setting the sector to a value different from the current one
  yields, in the same transition, criteria whose sector is the new value and whose
  industry is \<^verbatim>\<open>"Any"\<close>.
\<close>

theorem cascade_reset:
  "s2 \<noteq> FilterCriteria.sector filters \<Longrightarrow>
     FilterCriteria.sector (updateFilter (SetSector s2) filters) = s2
     \<and> FilterCriteria.industry (updateFilter (SetSector s2) filters) = ''Any''"
  by (simp add: updateFilter_def)

theorem cascade_reset_witness:
  "''Energy'' \<noteq> FilterCriteria.sector (defaultFilters\<lparr>FilterCriteria.sector := ''Tech'',
        FilterCriteria.industry := ''Software''\<rparr>)
   \<and> updateFilter (SetSector ''Energy'')
        (defaultFilters\<lparr>FilterCriteria.sector := ''Tech'', FilterCriteria.industry := ''Software''\<rparr>)
      = defaultFilters\<lparr>FilterCriteria.sector := ''Energy''\<rparr>"
  using cascade_reset [where ?s2.0 = "''Energy''" and filters = "defaultFilters\<lparr>FilterCriteria.sector := ''Tech'',
        FilterCriteria.industry := ''Software''\<rparr>"]
  by (simp add: updateFilter_def defaultFilters_def)

text \<open>
  C4 (filter monotonicity). When a criteria set differs from another only by constraints
  that were inactive before, it keeps at most as many records.
\<close>

theorem filter_monotone:
  "adds_constraints c1 c2 \<Longrightarrow>
     length (applyFilters data c2) \<le> length (applyFilters data c1)"
  unfolding applyFilters_def
  by (rule length_filter_mono) (simp add: matches_spec spec_matches_mono)

theorem filter_monotone_witness:
  "adds_constraints (defaultFilters\<lparr>FilterCriteria.sector := ''Tech''\<rparr>)
                    (defaultFilters\<lparr>FilterCriteria.sector := ''Tech'', rsiMin := Some 70\<rparr>)
   \<and> applyFilters [stockA, stockB, stockC] (defaultFilters\<lparr>FilterCriteria.sector := ''Tech''\<rparr>)
        = [stockA, stockB]
   \<and> applyFilters [stockA, stockB, stockC]
        (defaultFilters\<lparr>FilterCriteria.sector := ''Tech'', rsiMin := Some 70\<rparr>) = [stockA]
   \<and> length (applyFilters [stockA, stockB, stockC]
        (defaultFilters\<lparr>FilterCriteria.sector := ''Tech'', rsiMin := Some 70\<rparr>))
      \<le> length (applyFilters [stockA, stockB, stockC]
        (defaultFilters\<lparr>FilterCriteria.sector := ''Tech''\<rparr>))"
proof -
  have h: "adds_constraints (defaultFilters\<lparr>FilterCriteria.sector := ''Tech''\<rparr>)
                    (defaultFilters\<lparr>FilterCriteria.sector := ''Tech'', rsiMin := Some 70\<rparr>)"
    by (simp add: adds_constraints_def adds_categorical_def adds_bound_def defaultFilters_def)
  have a: "applyFilters [stockA, stockB, stockC] (defaultFilters\<lparr>FilterCriteria.sector := ''Tech''\<rparr>)
        = [stockA, stockB]"
    by (simp add: applyFilters_def matches_def defaultFilters_def stockA_def stockB_def stockC_def)
  have b: "applyFilters [stockA, stockB, stockC]
        (defaultFilters\<lparr>FilterCriteria.sector := ''Tech'', rsiMin := Some 70\<rparr>) = [stockA]"
    by (simp add: applyFilters_def matches_def defaultFilters_def stockA_def stockB_def stockC_def)
  from h a b filter_monotone [OF h, of "[stockA, stockB, stockC]"] show ?thesis by simp
qed

text \<open>
  C5 (conjunction, order). The result of \<^verbatim>\<open>applyFilters\<close> is the input filtered by
  the conjunction of the five per-field predicates (sector, industry, and the ranges of
  market cap, RSI and change; the market-cap bounds are the double products of the
  criteria with \<^verbatim>\<open>1_000_000_000\<close>, as in the code), and it is a subsequence of the
  input: the records that are kept stay in their relative order.
\<close>

theorem applyFilters_conjunction:
  "applyFilters data filters =
     filter (\<lambda>stock.
        categorical_ok (FilterCriteria.sector filters) (Stock.sector stock)
        \<and> categorical_ok (FilterCriteria.industry filters) (Stock.industry stock)
        \<and> range_ok (billions (marketCapMin filters)) (billions (marketCapMax filters))
                    (market_cap_basic stock)
        \<and> range_ok (rsiMin filters) (rsiMax filters) (RSI stock)
        \<and> range_ok (changeMin filters) (changeMax filters) (change stock)) data
   \<and> subseq (applyFilters data filters) data"
proof -
  have "matches filters = spec_matches filters"
    by (rule ext) (rule matches_spec)
  then show ?thesis
    unfolding applyFilters_def spec_matches_def [abs_def] by simp
qed

text \<open>
  C7 (inverted bounds). As the specification states it, with "every record with a value
  fails" for each of the three ranges, the property fails on the market-cap range: the
  bounds \<open>closeMin > closeMax\<close> have the same double product with \<^verbatim>\<open>1_000_000_000\<close>,
  470 million, so a record with that market cap passes both checks and is kept.
\<close>

theorem inverted_bounds_counterexample:
  "marketCapMin closeFilters = Some closeMin \<and> marketCapMax closeFilters = Some closeMax
   \<and> closeMax < closeMin
   \<and> market_cap_basic stockP = Some 470000000
   \<and> matches closeFilters stockP
   \<and> applyFilters [stockP, stockN] closeFilters = [stockP, stockN]"
  by (simp add: closeFilters_def defaultFilters_def applyFilters_def matches_def
        times_closeMin times_closeMax stockP_def stockN_def)
     (simp add: closeMin_def closeMax_def)

text \<open>
  C7, amended. When both bounds of a range are present and the minimum is above the
  maximum, the bounds are applied as they are. For RSI and change no record with a value
  matches, and the result is the list of the records whose value is \<^verbatim>\<open>null\<close> and that
  match the other criteria. For the market cap, whose bounds are multiplied by
  \<^verbatim>\<open>1_000_000_000\<close> in double arithmetic, a record with a market cap is kept only when
  both products are the same double and the market cap is that double; when the two
  products differ, no record with a market cap matches.
\<close>

theorem inverted_bounds_amended:
  "(marketCapMin filters = Some lo \<and> marketCapMax filters = Some hi \<and> hi < lo \<longrightarrow>
      (times_double lo 1000000000 \<noteq> times_double hi 1000000000 \<longrightarrow>
         (\<forall>stock. market_cap_basic stock \<noteq> None \<longrightarrow> \<not> matches filters stock))
      \<and> applyFilters data filters =
          filter (\<lambda>stock.
                   (market_cap_basic stock = None
                    \<or> (times_double lo 1000000000 = times_double hi 1000000000
                        \<and> market_cap_basic stock = Some (times_double lo 1000000000)))
                   \<and> matches (filters\<lparr>marketCapMin := None, marketCapMax := None\<rparr>) stock) data)
   \<and> (rsiMin filters = Some lo \<and> rsiMax filters = Some hi \<and> hi < lo \<longrightarrow>
      (\<forall>stock. RSI stock \<noteq> None \<longrightarrow> \<not> matches filters stock)
      \<and> applyFilters data filters =
          filter (\<lambda>stock. RSI stock = None
                   \<and> matches (filters\<lparr>rsiMin := None, rsiMax := None\<rparr>) stock) data)
   \<and> (changeMin filters = Some lo \<and> changeMax filters = Some hi \<and> hi < lo \<longrightarrow>
      (\<forall>stock. change stock \<noteq> None \<longrightarrow> \<not> matches filters stock)
      \<and> applyFilters data filters =
          filter (\<lambda>stock. change stock = None
                   \<and> matches (filters\<lparr>changeMin := None, changeMax := None\<rparr>) stock) data)"
proof (intro conjI impI)
  assume h: "marketCapMin filters = Some lo \<and> marketCapMax filters = Some hi \<and> hi < lo"
  then have le: "times_double hi 1000000000 \<le> times_double lo 1000000000"
    by (intro times_double_mono) simp
  have inv: "range_ok (billions (marketCapMin filters)) (billions (marketCapMax filters)) v
      = (v = None \<or> (times_double lo 1000000000 = times_double hi 1000000000
                      \<and> v = Some (times_double lo 1000000000)))" for v
    using h le by (cases v) (auto simp: billions_Some range_ok_def)
  have m: "matches filters stock =
      ((market_cap_basic stock = None
        \<or> (times_double lo 1000000000 = times_double hi 1000000000
            \<and> market_cap_basic stock = Some (times_double lo 1000000000)))
       \<and> matches (filters\<lparr>marketCapMin := None, marketCapMax := None\<rparr>) stock)" for stock
    by (simp add: matches_spec spec_matches_def inv billions_None range_ok_unbounded) blast
  show "applyFilters data filters =
          filter (\<lambda>stock.
                   (market_cap_basic stock = None
                    \<or> (times_double lo 1000000000 = times_double hi 1000000000
                        \<and> market_cap_basic stock = Some (times_double lo 1000000000)))
                   \<and> matches (filters\<lparr>marketCapMin := None, marketCapMax := None\<rparr>) stock) data"
    unfolding applyFilters_def by (rule filter_cong [OF refl]) (rule m)
  assume "times_double lo 1000000000 \<noteq> times_double hi 1000000000"
  then show "\<forall>stock. market_cap_basic stock \<noteq> None \<longrightarrow> \<not> matches filters stock"
    using m by simp
next
  assume h: "rsiMin filters = Some lo \<and> rsiMax filters = Some hi \<and> hi < lo"
  then have inv: "range_ok (rsiMin filters) (rsiMax filters) v = (v = None)" for v
    by (simp add: range_ok_inverted)
  have m: "matches filters stock = (RSI stock = None
      \<and> matches (filters\<lparr>rsiMin := None, rsiMax := None\<rparr>) stock)" for stock
    by (auto simp: matches_spec spec_matches_def inv range_ok_None)
  show "\<forall>stock. RSI stock \<noteq> None \<longrightarrow> \<not> matches filters stock"
    using m by simp
  show "applyFilters data filters =
          filter (\<lambda>stock. RSI stock = None
                   \<and> matches (filters\<lparr>rsiMin := None, rsiMax := None\<rparr>) stock) data"
    unfolding applyFilters_def by (rule filter_cong [OF refl]) (rule m)
next
  assume h: "changeMin filters = Some lo \<and> changeMax filters = Some hi \<and> hi < lo"
  then have inv: "range_ok (changeMin filters) (changeMax filters) v = (v = None)" for v
    by (simp add: range_ok_inverted)
  have m: "matches filters stock = (change stock = None
      \<and> matches (filters\<lparr>changeMin := None, changeMax := None\<rparr>) stock)" for stock
    by (auto simp: matches_spec spec_matches_def inv range_ok_None)
  show "\<forall>stock. change stock \<noteq> None \<longrightarrow> \<not> matches filters stock"
    using m by simp
  show "applyFilters data filters =
          filter (\<lambda>stock. change stock = None
                   \<and> matches (filters\<lparr>changeMin := None, changeMax := None\<rparr>) stock) data"
    unfolding applyFilters_def by (rule filter_cong [OF refl]) (rule m)
qed

theorem inverted_bounds_amended_witness:
  "marketCapMin invertedFilters = Some 70 \<and> marketCapMax invertedFilters = Some 30
   \<and> rsiMin invertedFilters = Some 70 \<and> rsiMax invertedFilters = Some 30
   \<and> changeMin invertedFilters = Some 70 \<and> changeMax invertedFilters = Some 30
   \<and> (30::real) < 70
   \<and> times_double 70 1000000000 \<noteq> times_double 30 1000000000
   \<and> \<not> matches invertedFilters stockA
   \<and> \<not> matches invertedFilters stockB
   \<and> \<not> matches invertedFilters stockC
   \<and> applyFilters scenario invertedFilters = [stockN]"
proof -
  have h: "marketCapMin invertedFilters = Some 70 \<and> marketCapMax invertedFilters = Some 30
      \<and> rsiMin invertedFilters = Some 70 \<and> rsiMax invertedFilters = Some 30
      \<and> changeMin invertedFilters = Some 70 \<and> changeMax invertedFilters = Some 30
      \<and> (30::real) < 70"
    by (simp add: invertedFilters_def)
  have p: "times_double 70 1000000000 \<noteq> times_double 30 1000000000"
    by (simp add: times_70 times_30)
  note t = inverted_bounds_amended [where filters = invertedFilters and lo = 70 and hi = 30
      and data = scenario]
  from t h p have m: "\<forall>stock. market_cap_basic stock \<noteq> None \<longrightarrow> \<not> matches invertedFilters stock"
    by blast
  from t h have r: "\<forall>stock. RSI stock \<noteq> None \<longrightarrow> \<not> matches invertedFilters stock"
    by blast
  have a: "\<not> matches invertedFilters stockA"
    using r by (simp add: stockA_def)
  have b: "\<not> matches invertedFilters stockB"
    using r by (simp add: stockB_def)
  have c: "\<not> matches invertedFilters stockC"
    using m by (simp add: stockC_def)
  have n: "matches invertedFilters stockN"
    by (simp add: matches_def stockN_def invertedFilters_def defaultFilters_def)
  show ?thesis
    using h p a b c n by (simp add: applyFilters_def scenario_def)
qed



text \<open>
  The product is the rounded one: with the minimum \<^verbatim>\<open>4.1\<close> the record whose market cap
  is the double just below 4.1 billion is kept, because the product is that double.
\<close>

lemma rounded_minimum_keeps_neighbour:
  "times_double fourPointOne 1000000000 = 8598323199999999 / 2097152
   \<and> (8598323199999999 / 2097152 :: real) < 4100000000
   \<and> matches (defaultFilters\<lparr>marketCapMin := Some fourPointOne\<rparr>) stockV"
  by (simp add: times_fourPointOne defaultFilters_def matches_def stockV_def)

section \<open>Rating labels: the bands\<close>


section \<open>Column visibility: the pinned column\<close>

lemma setAll_entry:
  "fold (\<lambda>col vis. if column_id col \<noteq> p then toggleVisibility col v vis else vis) xs visibility k
     = (if k \<noteq> p \<and> k \<in> column_id ` set xs then Some v else visibility k)"
  by (induction xs arbitrary: visibility) (auto simp: toggleVisibility_def)

lemma setAll_ticker: "setAll v cols visibility ''ticker'' = visibility ''ticker''"
  by (simp add: setAll_def setAll_entry)

lemma setAll_hideable:
  "col \<in> set cols \<Longrightarrow> getCanHide col \<Longrightarrow> column_id col \<noteq> ''ticker'' \<Longrightarrow>
     setAll v cols visibility (column_id col) = Some v"
  by (simp add: setAll_def setAll_entry allColumns_def)

lemma find_SomeD: "find P xs = Some x \<Longrightarrow> x \<in> set xs \<and> P x"
  by (induction xs) (auto split: if_splits)

lemma getColumn_SomeD:
  "getColumn cols columnId = Some col \<Longrightarrow>
     col \<in> set cols \<and> getCanHide col \<and> column_id col = columnId"
  by (auto simp: getColumn_def allColumns_def dest: find_SomeD)

lemma initialVisibility_entry:
  "fold (\<lambda>col visibility.
           case colId col of
             Some c \<Rightarrow>
               if c \<noteq> [] then visibility(c \<mapsto> List.member defaultVisibleColumns c)
               else visibility
           | None \<Rightarrow> visibility) xs vis k
     = (if k \<noteq> [] \<and> Some k \<in> colId ` set xs
        then Some (List.member defaultVisibleColumns k) else vis k)"
  by (induction xs arbitrary: vis) (auto split: option.splits)

lemma ticker_not_hideable:
  "col \<in> set columns \<Longrightarrow> getCanHide col \<Longrightarrow> column_id col \<noteq> ''ticker''"
  by (auto simp: columns_def tickerColumn_def keyColumn_def getCanHide_def column_id_def)

lemma getColumn_ticker: "getColumn columns ''ticker'' = None"
proof (cases "getColumn columns ''ticker''")
  case (Some col)
  then show ?thesis
    using getColumn_SomeD [OF Some] ticker_not_hideable by blast
qed simp

lemma onCheckedChange_ticker:
  "onCheckedChange columns columnId checked vis ''ticker'' = vis ''ticker''"
proof (cases "getColumn columns columnId")
  case None
  then show ?thesis by (simp add: onCheckedChange_def)
next
  case (Some col)
  from getColumn_SomeD [OF Some] ticker_not_hideable
  have "column_id col \<noteq> ''ticker''" by blast
  with Some show ?thesis by (simp add: onCheckedChange_def toggleVisibility_def)
qed

lemma initial_ticker: "initialVisibility columns ''ticker'' = Some True"
proof -
  have "colId tickerColumn = Some ''ticker''"
    by (simp add: colId_def tickerColumn_def)
  moreover have "tickerColumn \<in> set columns"
    by (simp add: columns_def)
  ultimately have "Some ''ticker'' \<in> colId ` set columns"
    by (metis imageI)
  then show ?thesis
    by (simp add: initialVisibility_def initialVisibility_entry defaultVisibleColumns_def)
qed

lemma step_ticker: "visibility_step a vis ''ticker'' = vis ''ticker''"
  by (cases a) (simp_all add: onCheckedChange_ticker showAll_def hideAll_def setAll_ticker)

lemma fold_step_ticker: "fold visibility_step actions vis ''ticker'' = vis ''ticker''"
  by (induction actions arbitrary: vis) (simp_all add: step_ticker)

text \<open>
  C9 (pinned column). After any list of toggle, "All" and "None" actions the ticker
  column is visible. A toggle request for the ticker leaves the state as it is, "All"
  and "None" leave the ticker's entry as it is, and they set the entry of every other
  column that can be hidden to true and to false.
\<close>

theorem ticker_always_visible:
  "visibility_after actions ''ticker'' = Some True
   \<and> getIsVisible tickerColumn (visibility_after actions)
   \<and> onCheckedChange columns ''ticker'' checked vis = vis
   \<and> showAll columns vis ''ticker'' = vis ''ticker''
   \<and> hideAll columns vis ''ticker'' = vis ''ticker''
   \<and> (\<forall>col \<in> set columns. getCanHide col \<and> column_id col \<noteq> ''ticker'' \<longrightarrow>
         showAll columns vis (column_id col) = Some True
         \<and> hideAll columns vis (column_id col) = Some False)"
proof -
  have a: "visibility_after actions ''ticker'' = Some True"
    by (simp add: visibility_after_def fold_step_ticker initial_ticker)
  have b: "getIsVisible tickerColumn (visibility_after actions)"
    by (simp add: getIsVisible_def column_id_def tickerColumn_def a)
  have c: "onCheckedChange columns ''ticker'' checked vis = vis"
    by (simp add: onCheckedChange_def getColumn_ticker)
  show ?thesis
    using a b c by (simp add: showAll_def hideAll_def setAll_ticker setAll_hideable)
qed

theorem ticker_always_visible_witness:
  "keyColumn ''name'' \<in> set columns \<and> getCanHide (keyColumn ''name'')
   \<and> column_id (keyColumn ''name'') \<noteq> ''ticker''
   \<and> hideAll columns (initialVisibility columns) ''name'' = Some False
   \<and> showAll columns (hideAll columns (initialVisibility columns)) ''name'' = Some True
   \<and> visibility_after [HideAll, Toggle ''ticker'' False, ShowAll, Toggle ''name'' False]
        ''ticker'' = Some True"
proof -
  have m: "keyColumn ''name'' \<in> set columns"
    by (simp add: columns_def)
  have h: "getCanHide (keyColumn ''name'') \<and> column_id (keyColumn ''name'') \<noteq> ''ticker''"
    by (simp add: keyColumn_def getCanHide_def column_id_def)
  have i: "column_id (keyColumn ''name'') = ''name''"
    by (simp add: keyColumn_def column_id_def)
  from ticker_always_visible [of "[HideAll, Toggle ''ticker'' False, ShowAll, Toggle ''name'' False]"
      False "initialVisibility columns"]
    ticker_always_visible [of "[]" False "hideAll columns (initialVisibility columns)"]
    m h i
  show ?thesis by auto
qed


end
